theory Spec2Isabelle
  imports Complex_Main
begin

section \<open>JavaScript arrays\<close>

text \<open>
  The notch patterns are JavaScript arrays. An array position either holds a value or is a
  hole (an index below \<open>length\<close> that was never written). The source types every entry as
  \<open>boolean\<close>; a read outside the array or of a hole gives \<open>undefined\<close>, which is kept
  as a value of its own because \<open>toggleNotch\<close> negates whatever it reads.
\<close>

datatype slot = Hole | Undefined | Val bool

definition truthy :: "slot \<Rightarrow> bool" where
  "truthy s = (s = Val True)"

text \<open>\<open>!x\<close>: always a boolean.\<close>

definition js_not :: "slot \<Rightarrow> slot" where
  "js_not s = Val (\<not> truthy s)"

text \<open>\<open>xs.some(f)\<close> and \<open>xs.every(f)\<close> do not visit holes.\<close>

definition array_some :: "(slot \<Rightarrow> bool) \<Rightarrow> slot list \<Rightarrow> bool" where
  "array_some f xs = list_ex f (filter (\<lambda>s. s \<noteq> Hole) xs)"

definition array_every :: "(slot \<Rightarrow> bool) \<Rightarrow> slot list \<Rightarrow> bool" where
  "array_every f xs = list_all f (filter (\<lambda>s. s \<noteq> Hole) xs)"

text \<open>\<open>[...xs]\<close>: a copy of the same length in which every hole has become \<open>undefined\<close>.\<close>

definition array_spread :: "slot list \<Rightarrow> slot list" where
  "array_spread xs = map (\<lambda>s. if s = Hole then Undefined else s) xs"

text \<open>\<open>xs[i]\<close> as an expression: \<open>undefined\<close> out of range and at a hole.\<close>

definition array_get :: "slot list \<Rightarrow> nat \<Rightarrow> slot" where
  "array_get xs i =
     (if i < length xs then (case xs ! i of Hole \<Rightarrow> Undefined | s \<Rightarrow> s) else Undefined)"

text \<open>
  \<open>xs[i] = v\<close>: in range it overwrites; at or beyond \<open>length\<close> JavaScript extends the
  array to length \<open>i + 1\<close>, leaving holes in between.
\<close>

definition array_set :: "slot list \<Rightarrow> nat \<Rightarrow> slot \<Rightarrow> slot list" where
  "array_set xs i v =
     (if i < length xs then xs[i := v] else xs @ replicate (i - length xs) Hole @ [v])"

section \<open>Data model (types/puzzle.ts)\<close>

text \<open>
  \<open>NotchPattern\<close> is declared as a tuple of six booleans: \<open>true\<close> = present (material),
  \<open>false\<close> = notched (cut out). At run time it is an array, so it is modelled as one and
  the declared shape is the predicate \<open>is_NotchPattern\<close>.
\<close>

type_synonym NotchPattern = "slot list"

definition is_NotchPattern :: "NotchPattern \<Rightarrow> bool" where
  "is_NotchPattern p = (length p = 6 \<and> list_all (\<lambda>s. s = Val True \<or> s = Val False) p)"

record SquarePieceNotches =
  top_side :: NotchPattern
  right :: NotchPattern
  bottom :: NotchPattern
  left :: NotchPattern

text \<open>\<open>keyof SquarePieceNotches\<close>.\<close>

datatype side = SideTop | SideRight | SideBottom | SideLeft

text \<open>\<open>notches[side]\<close> and \<open>newNotches[side] = newPattern\<close>.\<close>

fun get_side :: "SquarePieceNotches \<Rightarrow> side \<Rightarrow> NotchPattern" where
  "get_side n SideTop = top_side n"
| "get_side n SideRight = right n"
| "get_side n SideBottom = bottom n"
| "get_side n SideLeft = left n"

fun set_side :: "SquarePieceNotches \<Rightarrow> side \<Rightarrow> NotchPattern \<Rightarrow> SquarePieceNotches" where
  "set_side n SideTop p = n\<lparr>top_side := p\<rparr>"
| "set_side n SideRight p = n\<lparr>right := p\<rparr>"
| "set_side n SideBottom p = n\<lparr>bottom := p\<rparr>"
| "set_side n SideLeft p = n\<lparr>left := p\<rparr>"

text \<open>\<open>Object.values(notches)\<close>, in the order of the interface.\<close>

definition object_values :: "SquarePieceNotches \<Rightarrow> NotchPattern list" where
  "object_values n = [top_side n, right n, bottom n, left n]"

definition is_SquarePieceNotches :: "SquarePieceNotches \<Rightarrow> bool" where
  "is_SquarePieceNotches n = list_all is_NotchPattern (object_values n)"

record vec3 =
  x_v :: real
  y_v :: real
  z_v :: real

record shape_features_t =
  area :: real
  perimeter :: real
  complexity :: real
  corners :: real

text \<open>
  \<open>PuzzlePiece\<close>: every field but \<open>id\<close> is optional. \<open>id\<close> and \<open>size\<close> are HOL
  constants, hence the suffix.
\<close>

record PuzzlePiece =
  id_p :: string
  notches :: "SquarePieceNotches option"
  size_p :: "real option"
  image_path :: "string option"
  dimensions :: "vec3 option"
  color_profile :: "real list option"
  shape_features :: "shape_features_t option"
  position :: "vec3 option"

section \<open>The square-piece editor (SquarePieceEditor)\<close>

text \<open>The state a new editor starts from when no piece, or a piece without notches, is given.\<close>

definition defaultNotches :: SquarePieceNotches where
  "defaultNotches =
     \<lparr>top_side = [Val True, Val False, Val True, Val True, Val False, Val True],
      right = [Val True, Val False, Val True, Val True, Val False, Val True],
      bottom = [Val True, Val False, Val True, Val True, Val False, Val True],
      left = [Val True, Val False, Val True, Val True, Val False, Val True]\<rparr>"

text \<open>\<open>useState(piece?.notches || {...})\<close>.\<close>

definition initialNotches :: "PuzzlePiece option \<Rightarrow> SquarePieceNotches" where
  "initialNotches piece =
     (case piece of
        None \<Rightarrow> defaultNotches
      | Some p \<Rightarrow> (case notches p of None \<Rightarrow> defaultNotches | Some n \<Rightarrow> n))"

text \<open>\<open>pattern.some(present => present)\<close>.\<close>

definition validateNotches :: "NotchPattern \<Rightarrow> bool" where
  "validateNotches pattern = array_some (\<lambda>present. truthy present) pattern"

text \<open>\<open>Object.values(notches).every(pattern => validateNotches(pattern))\<close>.\<close>

definition isValidPiece :: "SquarePieceNotches \<Rightarrow> bool" where
  "isValidPiece n = list_all (\<lambda>pattern. validateNotches pattern) (object_values n)"

text \<open>
  \<open>toggleNotch(side, index)\<close>: the state \<open>notches\<close> is passed in and the new state is
  returned; the early \<open>return\<close> leaves the state as it was.
\<close>

definition toggleNotch :: "SquarePieceNotches \<Rightarrow> side \<Rightarrow> nat \<Rightarrow> SquarePieceNotches" where
  "toggleNotch n sd index =
     (let newNotches = n;
          copied = array_spread (get_side newNotches sd);
          newPattern = array_set copied index (js_not (array_get copied index))
      in if array_every (\<lambda>present. \<not> truthy present) newPattern then n
         else set_side newNotches sd newPattern)"

text \<open>
  \<open>renderSideEditor(side, label)\<close>: one button per position that \<open>map\<close> visits (holes
  are skipped, indices are kept). A button is described by what it shows (\<open>present\<close>) and
  by the index its \<open>onClick\<close> passes to \<open>toggleNotch\<close>.
\<close>

definition renderSideEditor :: "SquarePieceNotches \<Rightarrow> side \<Rightarrow> (bool \<times> nat) list" where
  "renderSideEditor n sd =
     map (\<lambda>(present, index). (truthy present, index))
       (filter (\<lambda>(present, index). present \<noteq> Hole)
          (zip (get_side n sd) [0 ..< length (get_side n sd)]))"

text \<open>
  The editor states a user can reach: the initial one, and any state after a click on a
  button that the current state renders.
\<close>

inductive editor_state :: "PuzzlePiece option \<Rightarrow> SquarePieceNotches \<Rightarrow> bool"
  for piece :: "PuzzlePiece option" where
  initial: "editor_state piece (initialNotches piece)"
| click: "editor_state piece n \<Longrightarrow> (present, index) \<in> set (renderSideEditor n sd) \<Longrightarrow>
          editor_state piece (toggleNotch n sd index)"

text \<open>
  \<open>handleSave\<close>: \<open>None\<close> is the early \<open>return\<close> (\<open>onSave\<close> is not called); \<open>Some\<close> is
  the object handed to \<open>onSave\<close>. \<open>crypto.randomUUID()\<close> is the parameter \<open>uuid\<close>;
  \<open>piece?.id || uuid\<close> falls back to it also for an empty id.
\<close>

definition handleSave :: "PuzzlePiece option \<Rightarrow> SquarePieceNotches \<Rightarrow> string \<Rightarrow> PuzzlePiece option" where
  "handleSave piece n uuid =
     (if \<not> isValidPiece n then None
      else Some \<lparr>id_p = (case piece of
                           None \<Rightarrow> uuid
                         | Some p \<Rightarrow> if id_p p = [] then uuid else id_p p),
                 notches = Some n,
                 size_p = Some 100,
                 image_path = None, dimensions = None, color_profile = None,
                 shape_features = None, position = None\<rparr>)"

text \<open>
  The edge invariant in the words of the specification: each of the four edge patterns
  (top, right, bottom, left) contains at least one present entry.
\<close>

definition all_edges_present :: "SquarePieceNotches \<Rightarrow> bool" where
  "all_edges_present n =
     (Val True \<in> set (top_side n) \<and> Val True \<in> set (right n) \<and>
      Val True \<in> set (bottom n) \<and> Val True \<in> set (left n))"

section \<open>Puzzles and the page that owns them (PuzzleDetail)\<close>

record solution_entry =
  piece_id :: string
  sol_position :: vec3
  sol_rotation :: vec3

text \<open>\<open>Puzzle\<close>; the field \<open>target_shape\<close> (of type \<open>any\<close>, never read) is left out.\<close>

record Puzzle =
  id_z :: string
  name :: string
  pieces :: "PuzzlePiece list"
  created_at :: string
  solved :: bool
  solution :: "solution_entry list option"

text \<open>
  \<open>handleSaveSquarePiece(pieceData)\<close>, the editor's \<open>onSave\<close>: the piece gets a fresh id
  (the parameter \<open>uuid\<close>) and is appended to the pieces of the puzzle in the page state,
  which may be \<open>null\<close>.
\<close>

definition handleSaveSquarePiece :: "PuzzlePiece \<Rightarrow> string \<Rightarrow> Puzzle option \<Rightarrow> Puzzle option" where
  "handleSaveSquarePiece pieceData uuid prev =
     (let newPiece = pieceData\<lparr>id_p := uuid\<rparr>
      in case prev of
           None \<Rightarrow> None
         | Some pz \<Rightarrow> Some (pz\<lparr>pieces := pieces pz @ [newPiece]\<rparr>))"

text \<open>The optional \<open>piece\<close> prop of the editor has the declared type.\<close>

definition well_typed_prop :: "PuzzlePiece option \<Rightarrow> bool" where
  "well_typed_prop piece =
     (case piece of
        None \<Rightarrow> True
      | Some p \<Rightarrow> (case notches p of None \<Rightarrow> True | Some m \<Rightarrow> is_SquarePieceNotches m))"

section \<open>The square-piece renderer and viewer (SquarePieceViewer3D)\<close>

text \<open>
  JavaScript numbers are modelled as reals; JSON cannot carry \<open>NaN\<close>, and the editor
  always writes \<open>size: 100\<close>. A number is falsy when it is \<open>undefined\<close> or \<open>0\<close>.
\<close>

definition number_truthy :: "real option \<Rightarrow> bool" where
  "number_truthy v = (case v of None \<Rightarrow> False | Some r \<Rightarrow> r \<noteq> 0)"

type_synonym triple = "real \<times> real \<times> real"

text \<open>A \<open>Box\<close> element with its material.\<close>

record box_elem =
  box_position :: triple
  box_rotation :: triple
  box_args :: triple
  box_color :: string
  box_opacity :: real

text \<open>
  \<open>renderNotchesOnSide(pattern, sidePosition, sideRotation)\<close> inside a piece whose notch
  width and depth are given: \<open>None\<close> is \<open>null\<close> (present material) or a position
  \<open>map\<close> did not visit; a notched position gives a red box.
\<close>

definition renderNotchesOnSide ::
    "real \<Rightarrow> real \<Rightarrow> NotchPattern \<Rightarrow> triple \<Rightarrow> triple \<Rightarrow> box_elem option list" where
  "renderNotchesOnSide notchWidth notchDepth pattern sidePosition sideRotation =
     map (\<lambda>(present, index).
            if present = Hole \<or> truthy present then None
            else
              let offset = (real index - 2.5) * notchWidth;
                  (sx, sy, sz) = sidePosition;
                  (rx, ry, rz) = sideRotation
              in Some \<lparr>box_position =
                          (sx + (if ry \<noteq> 0 then offset else 0), sy,
                           sz + (if ry = 0 then offset else 0)),
                        box_rotation = sideRotation,
                        box_args =
                          (if ry \<noteq> 0 then notchWidth * 0.8 else notchDepth * 2,
                           notchDepth * 0.8,
                           if ry = 0 then notchWidth * 0.8 else notchDepth * 2),
                        box_color = ''#ff4444'',
                        box_opacity = 0.7\<rparr>)
       (zip pattern [0 ..< length pattern])"

text \<open>The \<open>group\<close> a square piece renders to: the body and the notch boxes of the four sides.\<close>

record group_elem =
  group_position :: triple
  group_rotation :: triple
  body :: box_elem
  top_notches :: "box_elem option list"
  bottom_notches :: "box_elem option list"
  left_notches :: "box_elem option list"
  right_notches :: "box_elem option list"

text \<open>
  \<open>SquarePiece3D\<close>: \<open>None\<close> is \<open>return null\<close> (not a square piece). The per-frame
  floating animation of \<open>useFrame\<close> only moves the group and is not modelled.
\<close>

definition SquarePiece3D :: "PuzzlePiece \<Rightarrow> triple \<Rightarrow> triple \<Rightarrow> real \<Rightarrow> group_elem option" where
  "SquarePiece3D piece pos rot opacity =
     (if notches piece = None \<or> \<not> number_truthy (size_p piece) then None
      else
        let n = the (notches piece);
            size = the (size_p piece) / 100;
            notchDepth = size / 6;
            notchWidth = size / 6
        in Some \<lparr>group_position = pos,
                  group_rotation = rot,
                  body = \<lparr>box_position = (0, 0, 0), box_rotation = (0, 0, 0),
                          box_args = (size, notchDepth, size),
                          box_color = ''#4CAF50'', box_opacity = opacity\<rparr>,
                  top_notches =
                    renderNotchesOnSide notchWidth notchDepth (top_side n)
                      (0, notchDepth / 2 + 0.01, 0) (0, 0, 0),
                  bottom_notches =
                    renderNotchesOnSide notchWidth notchDepth (bottom n)
                      (0, - notchDepth / 2 - 0.01, 0) (0, 0, 0),
                  left_notches =
                    renderNotchesOnSide notchWidth notchDepth (left n)
                      (- size / 2 - 0.01, 0, 0) (0, pi / 2, 0),
                  right_notches =
                    renderNotchesOnSide notchWidth notchDepth (right n)
                      (size / 2 + 0.01, 0, 0) (0, pi / 2, 0)\<rparr>)"

text \<open>\<open>Math.ceil(Math.sqrt(n))\<close> for a length \<open>n\<close>: the least \<open>g\<close> with \<open>n \<le> g * g\<close>.\<close>

definition ceil_sqrt :: "nat \<Rightarrow> nat" where
  "ceil_sqrt n = (case find (\<lambda>g. n \<le> g * g) [0 ..< Suc n] of Some g \<Rightarrow> g | None \<Rightarrow> 0)"

text \<open>\<open>calculatePosition(index)\<close> in a viewer of \<open>count\<close> square pieces.\<close>

definition calculatePosition :: "nat \<Rightarrow> nat \<Rightarrow> triple" where
  "calculatePosition count index =
     (let gridSize = ceil_sqrt count;
          spacing = 2;
          row = index div gridSize;
          col = index mod gridSize;
          offsetX = (real col - real gridSize / 2) * spacing;
          offsetZ = (real row - real gridSize / 2) * spacing
      in (offsetX, 0, offsetZ))"

text \<open>A \<open><SquarePiece3D key=... piece=... position=... rotation=... opacity=... />\<close> element.\<close>

record piece_elem =
  elem_key :: string
  elem_piece :: PuzzlePiece
  elem_position :: triple
  elem_rotation :: triple
  elem_opacity :: real

definition render_elem :: "piece_elem \<Rightarrow> group_elem option" where
  "render_elem e = SquarePiece3D (elem_piece e) (elem_position e) (elem_rotation e) (elem_opacity e)"

text \<open>
  What \<open>SquarePieceViewer3D\<close> returns: the message "No square pieces to display", or the
  canvas with one element per square piece.
\<close>

datatype viewer_output = NoSquarePieces | Canvas "piece_elem list"

definition SquarePieceViewer3D :: "PuzzlePiece list \<Rightarrow> viewer_output" where
  "SquarePieceViewer3D ps =
     (let squarePieces = filter (\<lambda>piece. notches piece \<noteq> None) ps
      in if length squarePieces = 0 then NoSquarePieces
         else Canvas (map (\<lambda>(piece, index).
                             \<lparr>elem_key = id_p piece, elem_piece = piece,
                              elem_position = calculatePosition (length squarePieces) index,
                              elem_rotation = (0, 0, 0), elem_opacity = 0.8\<rparr>)
                        (zip squarePieces [0 ..< length squarePieces])))"

text \<open>A square piece as the editor saves it, used in the examples below.\<close>

definition examplePiece :: PuzzlePiece where
  "examplePiece =
     \<lparr>id_p = ''a'', notches = Some defaultNotches, size_p = Some 100, image_path = None,
      dimensions = None, color_profile = None, shape_features = None, position = None\<rparr>"

text \<open>A puzzle that holds this piece.\<close>

definition examplePuzzle :: Puzzle where
  "examplePuzzle =
     \<lparr>id_z = ''p1'', name = ''cube'', pieces = [examplePiece], created_at = ''2024-01-01'',
      solved = False, solution = None\<rparr>"

section \<open>Solving from the puzzle page (PuzzleDetail)\<close>

text \<open>The three literals of \<open>SolverRequest.algorithm\<close>.\<close>

datatype algorithm = genetic | simulated_annealing | reinforcement_learning

record SolverRequest =
  puzzle_id :: string
  algorithm :: algorithm
  max_iterations :: int

text \<open>
  The change handler of the "Max Iterations" field: \<open>parseInt(e.target.value) || 1000\<close>.
  The result of \<open>parseInt\<close> is an integer or \<open>NaN\<close> (\<open>None\<close>); \<open>NaN\<close> and \<open>0\<close> are
  falsy. The \<open>inputProps\<close> \<open>min: 100, max: 10000\<close> are attributes of the input element
  and take no part in the handler.
\<close>

definition setMaxIterations_onChange :: "int option \<Rightarrow> int" where
  "setMaxIterations_onChange parsed =
     (case parsed of None \<Rightarrow> 1000 | Some v \<Rightarrow> if v = 0 then 1000 else v)"

text \<open>The request \<open>handleSolvePuzzle\<close> builds from the page state.\<close>

definition solverRequest :: "Puzzle \<Rightarrow> algorithm \<Rightarrow> int \<Rightarrow> SolverRequest" where
  "solverRequest puzzle alg maxIterations =
     \<lparr>puzzle_id = id_z puzzle, algorithm = alg, max_iterations = maxIterations\<rparr>"

section \<open>The solver core, as the specification describes it\<close>

text \<open>
  The backend that holds the compatibility evaluator and the solve job controller is not
  among the sources (only the page that calls it and the types of its answers are). The
  definitions of this section follow the specification.
\<close>

subsection \<open>Compatibility evaluator: the connectivity term\<close>

text \<open>
  Modelled from the spec: the edge patterns of a piece descriptor ("four edge patterns,
  each a fixed-length ordered sequence of booleans", \<open>True\<close> = present, \<open>False\<close> =
  notched); the evaluator that reads them is missing from the sources.
\<close>

type_synonym edge_pattern = "bool list"

record connectivity_t =
  edge_top :: edge_pattern
  edge_right :: edge_pattern
  edge_bottom :: edge_pattern
  edge_left :: edge_pattern

text \<open>
  Modelled from the spec: the fields of a piece descriptor that the connectivity term of
  the missing evaluator reads: its id and its optional connectivity.
\<close>

record PieceDescriptor =
  descriptor_id :: string
  connectivity :: "connectivity_t option"

text \<open>
  Modelled from the spec: the edge of a descriptor's connectivity that \<open>score\<close> is asked
  about (\<open>aEdge\<close>, \<open>bEdge\<close>); part of the missing evaluator.
\<close>

fun edge_of :: "connectivity_t \<Rightarrow> side \<Rightarrow> edge_pattern" where
  "edge_of c SideTop = edge_top c"
| "edge_of c SideRight = edge_right c"
| "edge_of c SideBottom = edge_bottom c"
| "edge_of c SideLeft = edge_left c"

text \<open>
  Modelled from the spec: the interlocking constraint of the missing evaluator, "the
  shared edge is valid only when, position-by-position, exactly one of the two patterns is
  present and the other notched". The patterns are scanned together; patterns of different
  lengths have a position without a partner and do not interlock.
\<close>

fun interlocks :: "edge_pattern \<Rightarrow> edge_pattern \<Rightarrow> bool" where
  "interlocks [] [] = True"
| "interlocks (a # as) (b # bs) = ((a \<and> \<not> b \<or> \<not> a \<and> b) \<and> interlocks as bs)"
| "interlocks _ _ = False"

text \<open>
  Modelled from the spec: the connectivity term of the missing \<open>score(a, aEdge, b, bEdge)\<close>:
  "if both pieces declare connectivity [...] a violation contributes a large fixed penalty
  (treated as near-infeasible, not infinite)". The penalty is a number of the solver
  configuration; a valid edge, or a pair that does not declare connectivity on both sides,
  contributes nothing.
\<close>

definition connectivity_term ::
    "real \<Rightarrow> PieceDescriptor \<Rightarrow> side \<Rightarrow> PieceDescriptor \<Rightarrow> side \<Rightarrow> real" where
  "connectivity_term penalty a aEdge b bEdge =
     (case (connectivity a, connectivity b) of
        (Some ca, Some cb) \<Rightarrow>
          if interlocks (edge_of ca aEdge) (edge_of cb bEdge) then 0 else penalty
      | _ \<Rightarrow> 0)"

subsection \<open>Solve job controller: confidence\<close>

text \<open>
  Modelled from the spec: the confidence the missing controller derives from the final
  cost, "confidence = max(0, 1 - cost / cost_of_worst_feasible_arrangement), clamped to
  [0,1]".
\<close>

definition confidence_of :: "real \<Rightarrow> real \<Rightarrow> real" where
  "confidence_of c worst = min 1 (max 0 (1 - c / worst))"

subsection \<open>Solve job controller: accepting a solve request\<close>

text \<open>Modelled from the spec: the error taxonomy of the missing controller (section 7).\<close>

datatype error =
  InvalidPiece | InvalidConfiguration | AlreadyRunning | NotRunning | NotFound | SolverInternalError

text \<open>Modelled from the spec: the lifecycle states of a solve job of the missing controller.\<close>

datatype job_status = Running | Cancelled | Completed | Failed

text \<open>
  Modelled from the spec: an arrangement as the missing search strategies produce it, a
  mapping from piece id to position and rotation, with its cost.
\<close>

record placement =
  at_position :: vec3
  at_rotation :: vec3

record Arrangement =
  placements :: "string \<rightharpoonup> placement"
  cost :: real

text \<open>Modelled from the spec: the fields of a solve job in the registry of the missing controller.\<close>

record SolveJob =
  job_algorithm :: algorithm
  job_max_iterations :: int
  started_at :: nat
  status :: job_status
  job_progress_fraction :: real
  best_arrangement :: "Arrangement option"
  confidence :: "real option"

text \<open>
  Modelled from the spec: the configuration object of the missing solve interface, with the
  tunables whose ranges the specification documents. An entry that is not given
  (\<open>None\<close>) takes its default. The specification documents no range for the learning
  rate, the discount and the epsilon schedule, which are left out.
\<close>

record tunables =
  population_size :: "int option"
  mutation_rate :: "real option"
  initial_temperature :: "real option"
  cooling_rate :: "real option"

text \<open>
  Modelled from the spec: the arguments of the missing \<open>solve(puzzle_id, algorithm,
  max_iterations)\<close> as they arrive, the algorithm still a name.
\<close>

record solve_call =
  call_puzzle_id :: string
  call_algorithm :: string
  call_max_iterations :: int
  call_tunables :: tunables

text \<open>Modelled from the spec: the three algorithm names the missing solve interface knows.\<close>

definition parse_algorithm :: "string \<Rightarrow> algorithm option" where
  "parse_algorithm a =
     (if a = ''genetic'' then Some genetic
      else if a = ''simulated_annealing'' then Some simulated_annealing
      else if a = ''reinforcement_learning'' then Some reinforcement_learning
      else None)"

text \<open>
  Modelled from the spec: a tunable of the missing validation is in range when it is
  absent or lies between the documented bounds.
\<close>

definition in_range :: "'a::linorder \<Rightarrow> 'a \<Rightarrow> 'a option \<Rightarrow> bool" where
  "in_range lo hi v = (case v of None \<Rightarrow> True | Some r \<Rightarrow> lo \<le> r \<and> r \<le> hi)"

text \<open>
  Modelled from the spec: the documented ranges checked by the missing validation:
  population size 20 to 100, mutation rate 0.01 to 0.5, initial temperature 50 to 500,
  cooling rate 0.9 to 0.999.
\<close>

definition tunables_valid :: "tunables \<Rightarrow> bool" where
  "tunables_valid t =
     (in_range 20 100 (population_size t) \<and>
      in_range 0.01 0.5 (mutation_rate t) \<and>
      in_range 50 500 (initial_temperature t) \<and>
      in_range 0.9 0.999 (cooling_rate t))"

text \<open>
  Modelled from the spec: \<open>start\<close> of the missing controller: "fails with AlreadyRunning
  if a job for that puzzle id is active; otherwise creates a SolveJob in state Running".
  The result is the error or the initial job snapshot, together with the registry.
\<close>

definition start ::
    "(string \<rightharpoonup> SolveJob) \<Rightarrow> nat \<Rightarrow> string \<Rightarrow> algorithm \<Rightarrow> int
      \<Rightarrow> (error + SolveJob) \<times> (string \<rightharpoonup> SolveJob)" where
  "start registry now pid alg max_it =
     (let active = (case registry pid of None \<Rightarrow> False | Some j \<Rightarrow> status j = Running);
          job = \<lparr>job_algorithm = alg, job_max_iterations = max_it, started_at = now,
                 status = Running, job_progress_fraction = 0, best_arrangement = None,
                 confidence = None\<rparr>
      in if active then (Inl AlreadyRunning, registry)
         else (Inr job, registry(pid \<mapsto> job)))"

text \<open>
  Modelled from the spec: the missing \<open>solve\<close> interface: "algorithm \<in> {genetic,
  simulated_annealing, reinforcement_learning}, max_iterations \<in> [100, 10000]",
  "validation errors are returned synchronously and block job creation". The
  specification names no error for an unknown algorithm; it is rejected as an invalid
  configuration too.
\<close>

definition solve ::
    "(string \<rightharpoonup> SolveJob) \<Rightarrow> nat \<Rightarrow> solve_call \<Rightarrow> (error + SolveJob) \<times> (string \<rightharpoonup> SolveJob)" where
  "solve registry now c =
     (case parse_algorithm (call_algorithm c) of
        None \<Rightarrow> (Inl InvalidConfiguration, registry)
      | Some alg \<Rightarrow>
          if \<not> in_range 100 10000 (Some (call_max_iterations c)) \<or>
             \<not> tunables_valid (call_tunables c)
          then (Inl InvalidConfiguration, registry)
          else start registry now (call_puzzle_id c) alg (call_max_iterations c))"

text \<open>
  The request of the page as it reaches \<open>solve\<close>: the algorithm by its name, every
  tunable at its default.
\<close>

fun algorithm_name :: "algorithm \<Rightarrow> string" where
  "algorithm_name genetic = ''genetic''"
| "algorithm_name simulated_annealing = ''simulated_annealing''"
| "algorithm_name reinforcement_learning = ''reinforcement_learning''"

definition solve_call_of :: "SolverRequest \<Rightarrow> solve_call" where
  "solve_call_of r =
     \<lparr>call_puzzle_id = puzzle_id r, call_algorithm = algorithm_name (algorithm r),
      call_max_iterations = max_iterations r,
      call_tunables = \<lparr>population_size = None, mutation_rate = None,
                        initial_temperature = None, cooling_rate = None\<rparr>\<rparr>"

text \<open>
  Modelled from the spec: the end of a run in the missing controller: the job becomes
  Completed, its output is the final arrangement and its confidence is derived from the
  final cost and the cost of the worst feasible arrangement.
\<close>

definition complete_job :: "SolveJob \<Rightarrow> Arrangement \<Rightarrow> real \<Rightarrow> SolveJob" where
  "complete_job job final worst =
     job\<lparr>status := Completed, best_arrangement := Some final,
         confidence := Some (confidence_of (cost final) worst)\<rparr>"

subsection \<open>Solve job controller: driving a job and reporting progress\<close>

text \<open>
  Modelled from the spec: what the loop of the missing controller holds for one job: the
  job, whose fields a poll returns as a snapshot, and the number of steps done so far.
\<close>

record run =
  run_job :: SolveJob
  iteration :: nat

text \<open>
  Modelled from the spec: what can happen to a job between two polls in the missing
  controller: a \<open>step\<close> of the search strategy returns an arrangement and
  \<open>is_converged\<close> answers; a \<open>step\<close> fails; \<open>cancel\<close> is called.
\<close>

datatype turn = Stepped Arrangement bool | StepError | CancelCall

text \<open>
  Modelled from the spec: "recording the best Arrangement seen" in the missing controller;
  lower cost is better.
\<close>

definition better :: "Arrangement option \<Rightarrow> Arrangement \<Rightarrow> Arrangement" where
  "better best a = (case best of None \<Rightarrow> a | Some b \<Rightarrow> if cost a < cost b then a else b)"

text \<open>
  Modelled from the spec: one turn of the missing controller on a job. "The controller
  calls step repeatedly until convergence, cancellation, or max_iterations"; "progress is
  reported as iteration / max_iterations, updated after every step" (for reinforcement
  learning a step is an episode); \<open>cancel\<close> "transitions a Running job to Cancelled
  [...] no further steps execute"; a failing step makes the job Failed. A job that is
  not Running, or that has used up its iterations, takes no further step. \<open>worst\<close> is
  the cost of the worst feasible arrangement, from which the confidence is derived.
\<close>

definition controller_turn :: "real \<Rightarrow> turn \<Rightarrow> run \<Rightarrow> run" where
  "controller_turn worst t r =
     (let job = run_job r in
      if status job \<noteq> Running then r
      else case t of
        CancelCall \<Rightarrow> r\<lparr>run_job := job\<lparr>status := Cancelled\<rparr>\<rparr>
      | StepError \<Rightarrow> r\<lparr>run_job := job\<lparr>status := Failed\<rparr>\<rparr>
      | Stepped a converged \<Rightarrow>
          if job_max_iterations job \<le> int (iteration r) then r
          else
            let n = iteration r + 1;
                best = better (best_arrangement job) a;
                job' = job\<lparr>job_progress_fraction := real n / real_of_int (job_max_iterations job),
                           best_arrangement := Some best\<rparr>
            in if converged \<or> job_max_iterations job \<le> int n
               then \<lparr>run_job = complete_job job' best worst, iteration = n\<rparr>
               else \<lparr>run_job = job', iteration = n\<rparr>)"

text \<open>
  Modelled from the spec: the missing controller's loop over a sequence of turns, from
  the job \<open>start\<close> created.
\<close>

definition begin_run :: "SolveJob \<Rightarrow> run" where
  "begin_run job = \<lparr>run_job = job, iteration = 0\<rparr>"

fun run_turns :: "real \<Rightarrow> turn list \<Rightarrow> run \<Rightarrow> run" where
  "run_turns worst [] r = r"
| "run_turns worst (t # ts) r = run_turns worst ts (controller_turn worst t r)"

text \<open>
  What holds of a run at every moment: the iteration bound is the accepted one, the
  progress is the share of iterations done, and a job that still runs has iterations left.
\<close>

definition run_ok :: "run \<Rightarrow> bool" where
  "run_ok r =
     (0 < job_max_iterations (run_job r) \<and>
      int (iteration r) \<le> job_max_iterations (run_job r) \<and>
      job_progress_fraction (run_job r) =
        real (iteration r) / real_of_int (job_max_iterations (run_job r)))"

text \<open>Two descriptors with complementary patterns on the edges they share, for the examples.\<close>

definition descriptorA :: PieceDescriptor where
  "descriptorA =
     \<lparr>descriptor_id = ''A'',
      connectivity = Some \<lparr>edge_top = [True, False, True], edge_right = [True, True, False],
                            edge_bottom = [True, False, False], edge_left = [False, True, True]\<rparr>\<rparr>"

definition descriptorB :: PieceDescriptor where
  "descriptorB =
     \<lparr>descriptor_id = ''B'',
      connectivity = Some \<lparr>edge_top = [True, True, True], edge_right = [True, False, False],
                            edge_bottom = [False, True, False], edge_left = [True, False, True]\<rparr>\<rparr>"

text \<open>A running job and a final arrangement of cost 2, for the examples.\<close>

definition exampleJob :: SolveJob where
  "exampleJob =
     \<lparr>job_algorithm = genetic, job_max_iterations = 1000, started_at = 0, status = Running,
      job_progress_fraction = 1, best_arrangement = None, confidence = None\<rparr>"

definition exampleFinal :: Arrangement where
  "exampleFinal = \<lparr>placements = Map.empty, cost = 2\<rparr>"

text \<open>A request as the page sends it by default, for the examples.\<close>

definition exampleCall :: solve_call where
  "exampleCall =
     \<lparr>call_puzzle_id = ''p1'', call_algorithm = ''genetic'', call_max_iterations = 1000,
      call_tunables = \<lparr>population_size = None, mutation_rate = None,
                        initial_temperature = None, cooling_rate = None\<rparr>\<rparr>"

text \<open>An editor state whose top side has a single present entry left, for the examples.\<close>

definition lastPresent :: SquarePieceNotches where
  "lastPresent =
     defaultNotches\<lparr>top_side := [Val True, Val False, Val False, Val False, Val False, Val False]\<rparr>"

section \<open>Properties of the square-piece editor\<close>

lemma array_every_notched: "array_every (\<lambda>present. \<not> truthy present) q = (Val True \<notin> set q)"
  by (auto simp: array_every_def truthy_def list_all_iff)

lemma validateNotches_iff: "validateNotches q = (Val True \<in> set q)"
  by (auto simp: validateNotches_def array_some_def truthy_def list_ex_iff)

lemma all_sides: "(\<forall>sd. P sd) = (P SideTop \<and> P SideRight \<and> P SideBottom \<and> P SideLeft)"
  by (metis side.exhaust)

lemma isValidPiece_iff: "isValidPiece n = (\<forall>sd. Val True \<in> set (get_side n sd))"
  by (simp add: all_sides isValidPiece_def object_values_def validateNotches_iff)

lemma get_set_side: "get_side (set_side n sd p) sd' = (if sd' = sd then p else get_side n sd')"
  by (cases sd; cases sd') simp_all

lemma is_SquarePieceNotches_iff: "is_SquarePieceNotches n = (\<forall>sd. is_NotchPattern (get_side n sd))"
  by (simp add: all_sides is_SquarePieceNotches_def object_values_def)

lemma spread_NotchPattern: "is_NotchPattern p \<Longrightarrow> array_spread p = p"
  by (auto simp: is_NotchPattern_def array_spread_def list_all_iff intro!: map_idI)

lemma get_NotchPattern: "is_NotchPattern p \<Longrightarrow> index < 6 \<Longrightarrow> array_get p index = p ! index"
  by (auto simp: is_NotchPattern_def array_get_def list_all_length split: slot.splits)

lemma set_NotchPattern: "is_NotchPattern p \<Longrightarrow> index < 6 \<Longrightarrow> array_set p index v = p[index := v]"
  by (simp add: is_NotchPattern_def array_set_def)

lemma toggleNotch_in_range:
  assumes "is_NotchPattern (get_side n sd)" "index < 6"
  shows "toggleNotch n sd index =
     (let flipped = (get_side n sd)[index := js_not (get_side n sd ! index)]
      in if Val True \<notin> set flipped then n else set_side n sd flipped)"
  using assms
  by (simp add: toggleNotch_def Let_def spread_NotchPattern get_NotchPattern set_NotchPattern
      array_every_notched)

lemma toggleNotch_valid:
  assumes "isValidPiece n"
  shows "isValidPiece (toggleNotch n sd index)"
  using assms
  by (auto simp: toggleNotch_def Let_def isValidPiece_iff get_set_side array_every_notched)

lemma isValidPiece_edges: "isValidPiece n = all_edges_present n"
  by (simp add: isValidPiece_def object_values_def validateNotches_iff all_edges_present_def)

lemma toggleNotch_edges:
  assumes "all_edges_present n"
  shows "all_edges_present (toggleNotch n sd index)"
  using assms toggleNotch_valid[of n sd index] by (simp add: isValidPiece_edges)

text \<open>
  C8: from an editor state whose four patterns are six booleans each and each contain a
  present entry, \<open>toggleNotch\<close> at any side and index gives a state with the same
  property; for a position index (0 to 5), if flipping that position would leave the side
  with no present entry the state is returned unchanged, and otherwise exactly that
  position of that side is flipped and the other three sides are unchanged.
\<close>

theorem toggleNotch_keeps_present:
  assumes "is_SquarePieceNotches n" and "all_edges_present n"
  shows "all_edges_present (toggleNotch n sd index) \<and>
     (index < 6 \<longrightarrow>
        (let flipped = (get_side n sd)[index := js_not (get_side n sd ! index)]
         in if Val True \<notin> set flipped then toggleNotch n sd index = n
            else get_side (toggleNotch n sd index) sd = flipped \<and>
                 (\<forall>sd'. sd' \<noteq> sd \<longrightarrow>
                    get_side (toggleNotch n sd index) sd' = get_side n sd')))"
proof (intro conjI impI)
  show "all_edges_present (toggleNotch n sd index)"
    using assms(2) by (rule toggleNotch_edges)
next
  assume "index < 6"
  moreover from assms(1) have "is_NotchPattern (get_side n sd)"
    by (simp add: is_SquarePieceNotches_iff)
  ultimately show "let flipped = (get_side n sd)[index := js_not (get_side n sd ! index)]
         in if Val True \<notin> set flipped then toggleNotch n sd index = n
            else get_side (toggleNotch n sd index) sd = flipped \<and>
                 (\<forall>sd'. sd' \<noteq> sd \<longrightarrow>
                    get_side (toggleNotch n sd index) sd' = get_side n sd')"
    by (simp add: toggleNotch_in_range Let_def get_set_side)
qed

theorem toggleNotch_keeps_present_witness:
  "is_SquarePieceNotches defaultNotches \<and> all_edges_present defaultNotches \<and> Suc 0 < 6 \<and>
   all_edges_present (toggleNotch defaultNotches SideTop (Suc 0)) \<and>
   get_side (toggleNotch defaultNotches SideTop (Suc 0)) SideTop =
     [Val True, Val True, Val True, Val True, Val False, Val True] \<and>
   get_side (toggleNotch defaultNotches SideTop (Suc 0)) SideLeft = get_side defaultNotches SideLeft \<and>
   is_SquarePieceNotches lastPresent \<and> all_edges_present lastPresent \<and>
   toggleNotch lastPresent SideTop 0 = lastPresent"
proof -
  have h1: "is_SquarePieceNotches defaultNotches"
    by (simp add: is_SquarePieceNotches_def object_values_def is_NotchPattern_def defaultNotches_def)
  have h2: "all_edges_present defaultNotches"
    by (simp add: all_edges_present_def defaultNotches_def)
  have flipped: "(get_side defaultNotches SideTop)
       [Suc 0 := js_not (get_side defaultNotches SideTop ! Suc 0)] =
      [Val True, Val True, Val True, Val True, Val False, Val True]"
    by (simp add: defaultNotches_def js_not_def truthy_def)
  note t = toggleNotch_keeps_present [OF h1 h2, of SideTop "Suc 0"]
  from t have a: "all_edges_present (toggleNotch defaultNotches SideTop (Suc 0))"
    by (rule conjunct1)
  from t have "get_side (toggleNotch defaultNotches SideTop (Suc 0)) SideTop =
          [Val True, Val True, Val True, Val True, Val False, Val True] \<and>
        (\<forall>sd'. sd' \<noteq> SideTop \<longrightarrow>
           get_side (toggleNotch defaultNotches SideTop (Suc 0)) sd' = get_side defaultNotches sd')"
    unfolding Let_def flipped by simp
  then have b: "get_side (toggleNotch defaultNotches SideTop (Suc 0)) SideTop =
          [Val True, Val True, Val True, Val True, Val False, Val True]"
    and c: "get_side (toggleNotch defaultNotches SideTop (Suc 0)) SideLeft =
          get_side defaultNotches SideLeft"
    by (simp, metis side.distinct(5))
  have k1: "is_SquarePieceNotches lastPresent"
    by (simp add: is_SquarePieceNotches_def object_values_def is_NotchPattern_def
        defaultNotches_def lastPresent_def)
  have k2: "all_edges_present lastPresent"
    by (simp add: all_edges_present_def defaultNotches_def lastPresent_def)
  have blocked: "Val True \<notin> set ((get_side lastPresent SideTop)
       [0 := js_not (get_side lastPresent SideTop ! 0)])"
    by (simp add: lastPresent_def js_not_def truthy_def)
  from toggleNotch_keeps_present [OF k1 k2, of SideTop 0] blocked
  have d: "toggleNotch lastPresent SideTop 0 = lastPresent"
    by (simp add: Let_def)
  from h1 h2 a b c k1 k2 d show ?thesis by simp
qed

text \<open>
  C1: the editor's save succeeds exactly when each of the four edge patterns has a present
  entry; a state with an edge without one is rejected (the early return, \<open>onSave\<close> is
  not called). A saved piece carries the validated patterns, and appending it to a puzzle
  whose pieces with connectivity data all satisfy the invariant gives such a puzzle again.
\<close>

theorem handleSave_rejects_notched_edge:
  "(handleSave piece n uuid = None \<longleftrightarrow> \<not> all_edges_present n) \<and>
   (\<forall>p. handleSave piece n uuid = Some p \<longrightarrow>
      notches p = Some n \<and> all_edges_present n \<and>
      (\<forall>prev uuid'.
         (\<forall>q \<in> set (pieces prev). \<forall>m. notches q = Some m \<longrightarrow> all_edges_present m) \<longrightarrow>
         (\<exists>pz. handleSaveSquarePiece p uuid' (Some prev) = Some pz \<and>
            (\<forall>q \<in> set (pieces pz). \<forall>m. notches q = Some m \<longrightarrow> all_edges_present m))))"
  by (auto simp: handleSave_def handleSaveSquarePiece_def isValidPiece_edges)

theorem handleSave_rejects_notched_edge_witness:
  "\<not> all_edges_present (defaultNotches\<lparr>top_side := replicate 6 (Val False)\<rparr>) \<and>
   handleSave None (defaultNotches\<lparr>top_side := replicate 6 (Val False)\<rparr>) ''u1'' = None \<and>
   all_edges_present defaultNotches \<and>
   (\<exists>p pz. handleSave None defaultNotches ''u1'' = Some p \<and> notches p = Some defaultNotches \<and>
      handleSaveSquarePiece p ''u2'' (Some examplePuzzle) = Some pz \<and>
      list_all (\<lambda>q. case notches q of None \<Rightarrow> True | Some m \<Rightarrow> all_edges_present m) (pieces pz))"
proof -
  have bad: "\<not> all_edges_present (defaultNotches\<lparr>top_side := replicate 6 (Val False)\<rparr>)"
    by (simp add: all_edges_present_def)
  have good: "all_edges_present defaultNotches"
    by (simp add: all_edges_present_def defaultNotches_def)
  from handleSave_rejects_notched_edge [of None "defaultNotches\<lparr>top_side := replicate 6 (Val False)\<rparr>" "''u1''"] bad
  have r: "handleSave None (defaultNotches\<lparr>top_side := replicate 6 (Val False)\<rparr>) ''u1'' = None"
    by blast
  note t = handleSave_rejects_notched_edge [of None defaultNotches "''u1''"]
  from t good obtain p where p: "handleSave None defaultNotches ''u1'' = Some p"
    by (metis option.exhaust)
  with t have n: "notches p = Some defaultNotches" by blast
  have prev: "\<forall>q \<in> set (pieces examplePuzzle). \<forall>m. notches q = Some m \<longrightarrow> all_edges_present m"
    by (simp add: examplePuzzle_def examplePiece_def good)
  from t p prev obtain pz where pz: "handleSaveSquarePiece p ''u2'' (Some examplePuzzle) = Some pz"
    and inv: "\<forall>q \<in> set (pieces pz). \<forall>m. notches q = Some m \<longrightarrow> all_edges_present m"
    by blast
  from inv have "list_all (\<lambda>q. case notches q of None \<Rightarrow> True | Some m \<Rightarrow> all_edges_present m) (pieces pz)"
    by (auto simp: list_all_iff split: option.splits)
  with p n pz have "\<exists>p pz. handleSave None defaultNotches ''u1'' = Some p \<and> notches p = Some defaultNotches \<and>
      handleSaveSquarePiece p ''u2'' (Some examplePuzzle) = Some pz \<and>
      list_all (\<lambda>q. case notches q of None \<Rightarrow> True | Some m \<Rightarrow> all_edges_present m) (pieces pz)"
    by blast
  with bad good r show ?thesis by blast
qed

section \<open>Pattern lengths\<close>

lemma renderSideEditor_index:
  assumes "(present, index) \<in> set (renderSideEditor n sd)"
  shows "index < length (get_side n sd)"
proof -
  from assms obtain s where "(s, index) \<in> set (zip (get_side n sd) [0 ..< length (get_side n sd)])"
    by (auto simp: renderSideEditor_def)
  then have "index \<in> set [0 ..< length (get_side n sd)]"
    by (rule set_zip_rightD)
  then show ?thesis by simp
qed

lemma js_not_boolean: "js_not s = Val True \<or> js_not s = Val False"
  by (simp add: js_not_def)

lemma is_NotchPattern_update:
  assumes "is_NotchPattern p"
  shows "is_NotchPattern (p[index := js_not s])"
proof -
  from assms have len: "length p = 6" and vals: "\<forall>s \<in> set p. s = Val True \<or> s = Val False"
    by (simp_all add: is_NotchPattern_def list_all_iff)
  have "\<forall>t \<in> set (p[index := js_not s]). t = Val True \<or> t = Val False"
  proof
    fix t assume "t \<in> set (p[index := js_not s])"
    then have "t \<in> insert (js_not s) (set p)"
      using set_update_subset_insert by fastforce
    with vals js_not_boolean [of s] show "t = Val True \<or> t = Val False" by auto
  qed
  with len show ?thesis by (simp add: is_NotchPattern_def list_all_iff)
qed

lemma toggleNotch_well_typed:
  assumes "is_SquarePieceNotches n" and "index < 6"
  shows "is_SquarePieceNotches (toggleNotch n sd index)"
proof -
  from assms(1) have p: "is_NotchPattern (get_side n sd)"
    by (simp add: is_SquarePieceNotches_iff)
  show ?thesis
    using assms p
    by (simp add: toggleNotch_in_range Let_def is_SquarePieceNotches_iff get_set_side
        is_NotchPattern_update)
qed

lemma defaultNotches_well_typed: "is_SquarePieceNotches defaultNotches"
  by (simp add: is_SquarePieceNotches_def object_values_def is_NotchPattern_def defaultNotches_def)

lemma initialNotches_well_typed:
  "well_typed_prop piece \<Longrightarrow> is_SquarePieceNotches (initialNotches piece)"
  by (auto simp: well_typed_prop_def initialNotches_def defaultNotches_well_typed split: option.splits)

lemma editor_state_well_typed:
  assumes "editor_state piece n" and "well_typed_prop piece"
  shows "is_SquarePieceNotches n"
  using assms
proof (induction rule: editor_state.induct)
  case initial
  then show ?case by (rule initialNotches_well_typed)
next
  case (click n present index sd)
  then have wt: "is_SquarePieceNotches n" by simp
  then have "length (get_side n sd) = 6"
    by (simp add: is_SquarePieceNotches_iff is_NotchPattern_def)
  with click.hyps(2) have "index < 6"
    using renderSideEditor_index by fastforce
  with wt show ?case by (rule toggleNotch_well_typed)
qed

text \<open>
  C9: a \<open>SquarePieceNotches\<close> record has exactly the four patterns top, right, bottom
  and left. In every state the editor can reach from a well-typed \<open>piece\<close> prop, each of
  the four patterns has exactly six positions, each a boolean; every click on a rendered
  button leads to patterns of length six again, and a saved piece carries patterns of
  length six.
\<close>

theorem editor_patterns_have_six_positions:
  assumes "well_typed_prop piece" and "editor_state piece n"
  shows "(\<forall>sd. length (get_side n sd) = 6 \<and>
              (\<forall>i < 6. get_side n sd ! i = Val True \<or> get_side n sd ! i = Val False)) \<and>
         (\<forall>sd present index. (present, index) \<in> set (renderSideEditor n sd) \<longrightarrow>
              (\<forall>sd'. length (get_side (toggleNotch n sd index) sd') = 6)) \<and>
         (\<forall>uuid p. handleSave piece n uuid = Some p \<longrightarrow>
              (\<exists>m. notches p = Some m \<and> (\<forall>sd. length (get_side m sd) = 6)))"
proof (intro conjI allI impI)
  from assms have wt: "is_SquarePieceNotches n"
    using editor_state_well_typed by blast
  then have pat: "\<And>sd. is_NotchPattern (get_side n sd)"
    by (simp add: is_SquarePieceNotches_iff)
  { fix sd show "length (get_side n sd) = 6"
      using pat [of sd] by (simp add: is_NotchPattern_def) }
  note len = this
  { fix sd i assume "i < (6::nat)"
    with pat [of sd] show "get_side n sd ! i = Val True \<or> get_side n sd ! i = Val False"
      by (simp add: is_NotchPattern_def list_all_length) }
  { fix sd present index sd'
    assume "(present, index) \<in> set (renderSideEditor n sd)"
    with assms(2) have "editor_state piece (toggleNotch n sd index)"
      by (rule editor_state.click)
    with assms(1) have "is_SquarePieceNotches (toggleNotch n sd index)"
      using editor_state_well_typed by blast
    then show "length (get_side (toggleNotch n sd index) sd') = 6"
      by (simp add: is_SquarePieceNotches_iff is_NotchPattern_def) }
  { fix uuid p assume "handleSave piece n uuid = Some p"
    then have "notches p = Some n"
      by (auto simp: handleSave_def split: if_splits)
    with len show "\<exists>m. notches p = Some m \<and> (\<forall>sd. length (get_side m sd) = 6)"
      by simp }
qed

theorem editor_patterns_have_six_positions_witness:
  "well_typed_prop None \<and> editor_state None (toggleNotch defaultNotches SideTop (Suc 0)) \<and>
   length (get_side (toggleNotch defaultNotches SideTop (Suc 0)) SideTop) = 6 \<and>
   length (get_side (toggleNotch defaultNotches SideTop (Suc 0)) SideLeft) = 6 \<and>
   (True, 0) \<in> set (renderSideEditor (toggleNotch defaultNotches SideTop (Suc 0)) SideRight) \<and>
   length (get_side (toggleNotch (toggleNotch defaultNotches SideTop (Suc 0)) SideRight 0) SideRight) = 6 \<and>
   (\<exists>p m. handleSave None (toggleNotch defaultNotches SideTop (Suc 0)) ''u1'' = Some p \<and>
      notches p = Some m \<and> length (get_side m SideTop) = 6)"
proof -
  have h1: "well_typed_prop None" by (simp add: well_typed_prop_def)
  have "editor_state None (initialNotches None)" by (rule editor_state.initial)
  then have init: "editor_state None defaultNotches" by (simp add: initialNotches_def)
  have "(False, Suc 0) \<in> set (renderSideEditor defaultNotches SideTop)"
    by (simp add: renderSideEditor_def defaultNotches_def truthy_def upt_conv_Cons)
  with init have h2: "editor_state None (toggleNotch defaultNotches SideTop (Suc 0))"
    by (rule editor_state.click)
  have val: "toggleNotch defaultNotches SideTop (Suc 0) =
      defaultNotches\<lparr>top_side := [Val True, Val True, Val True, Val True, Val False, Val True]\<rparr>"
    by (simp add: toggleNotch_def Let_def defaultNotches_def array_spread_def array_get_def
        array_set_def array_every_def js_not_def truthy_def)
  have button: "(True, 0) \<in> set (renderSideEditor (toggleNotch defaultNotches SideTop (Suc 0)) SideRight)"
    unfolding val by (simp add: renderSideEditor_def defaultNotches_def truthy_def upt_conv_Cons)
  have saved: "\<exists>p. handleSave None (toggleNotch defaultNotches SideTop (Suc 0)) ''u1'' = Some p"
    unfolding val
    by (simp add: handleSave_def isValidPiece_def object_values_def validateNotches_def
        array_some_def truthy_def defaultNotches_def)
  note t = editor_patterns_have_six_positions [OF h1 h2]
  from t have a: "\<forall>sd. length (get_side (toggleNotch defaultNotches SideTop (Suc 0)) sd) = 6"
    by blast
  from t button
  have b: "length (get_side (toggleNotch (toggleNotch defaultNotches SideTop (Suc 0)) SideRight 0) SideRight) = 6"
    by blast
  from t saved
  have c: "\<exists>p m. handleSave None (toggleNotch defaultNotches SideTop (Suc 0)) ''u1'' = Some p \<and>
      notches p = Some m \<and> length (get_side m SideTop) = 6"
    by blast
  from h1 h2 a button b c show ?thesis by blast
qed

text \<open>
  The buttons only pass indices of the pattern itself. Called directly with an index beyond
  the pattern, \<open>toggleNotch\<close> would extend the array, as JavaScript does.
\<close>

lemma toggleNotch_beyond_pattern:
  "length (get_side (toggleNotch defaultNotches SideTop 7) SideTop) = 8"
  by (simp add: toggleNotch_def Let_def defaultNotches_def array_spread_def array_get_def
      array_set_def array_every_def js_not_def truthy_def)

section \<open>Properties of the renderer and the viewer\<close>

lemma map_elem_piece_zip:
  "map elem_piece
     (map (\<lambda>(piece, index).
             \<lparr>elem_key = id_p piece, elem_piece = piece,
              elem_position = f index, elem_rotation = r, elem_opacity = op\<rparr>)
        (zip qs [0 ..< length qs])) = qs"
proof -
  have "map elem_piece
     (map (\<lambda>(piece, index).
             \<lparr>elem_key = id_p piece, elem_piece = piece,
              elem_position = f index, elem_rotation = r, elem_opacity = op\<rparr>)
        (zip qs [0 ..< length qs])) = map fst (zip qs [0 ..< length qs])"
    by (simp add: case_prod_beta comp_def)
  also have "\<dots> = qs" by simp
  finally show ?thesis .
qed

lemma SquarePiece3D_None_iff:
  "SquarePiece3D piece pos rot opacity = None \<longleftrightarrow>
     notches piece = None \<or> \<not> number_truthy (size_p piece)"
  by (simp add: SquarePiece3D_def Let_def)

lemma number_truthy_iff: "number_truthy v \<longleftrightarrow> v \<noteq> None \<and> v \<noteq> Some 0"
  by (cases v) (simp_all add: number_truthy_def)

lemma viewer_elements:
  assumes "SquarePieceViewer3D ps = Canvas es"
  shows "es \<noteq> [] \<and> map elem_piece es = filter (\<lambda>p. notches p \<noteq> None) ps"
proof -
  define qs where "qs = filter (\<lambda>p. notches p \<noteq> None) ps"
  have "qs \<noteq> []"
    using assms by (auto simp: SquarePieceViewer3D_def Let_def qs_def split: if_splits)
  then have "es = map (\<lambda>(piece, index).
                         \<lparr>elem_key = id_p piece, elem_piece = piece,
                          elem_position = calculatePosition (length qs) index,
                          elem_rotation = (0, 0, 0), elem_opacity = 0.8\<rparr>)
                    (zip qs [0 ..< length qs])"
    using assms by (simp add: SquarePieceViewer3D_def Let_def qs_def)
  then have "map elem_piece es = qs"
    by (simp only: map_elem_piece_zip)
  with \<open>qs \<noteq> []\<close> show ?thesis unfolding qs_def by auto
qed

lemma viewer_message:
  "SquarePieceViewer3D ps = NoSquarePieces \<longleftrightarrow> filter (\<lambda>p. notches p \<noteq> None) ps = []"
  by (simp add: SquarePieceViewer3D_def Let_def)

text \<open>
  C10: \<open>SquarePiece3D\<close> produces geometry only for a piece that declares both notches
  and size, and a piece lacking either renders nothing (nor does a piece of size 0, which
  JavaScript takes as lacking); \<open>SquarePieceViewer3D\<close> shows the empty-state message
  exactly when no input piece has a notches field, and otherwise hands to the renderer one
  element per input piece with a notches field, in input order, and no other. Of these
  elements, those whose piece has no size render nothing.
\<close>

theorem square_viewer_shows_notched_pieces:
  "(SquarePiece3D piece pos rot opacity = None \<longleftrightarrow>
      notches piece = None \<or> size_p piece = None \<or> size_p piece = Some 0) \<and>
   (\<forall>g. SquarePiece3D piece pos rot opacity = Some g \<longrightarrow>
        notches piece \<noteq> None \<and> size_p piece \<noteq> None) \<and>
   (SquarePieceViewer3D ps = NoSquarePieces \<longleftrightarrow> filter (\<lambda>p. notches p \<noteq> None) ps = []) \<and>
   (\<forall>es. SquarePieceViewer3D ps = Canvas es \<longrightarrow>
        es \<noteq> [] \<and> map elem_piece es = filter (\<lambda>p. notches p \<noteq> None) ps \<and>
        (\<forall>e \<in> set es. (render_elem e = None) =
           (size_p (elem_piece e) = None \<or> size_p (elem_piece e) = Some 0)))"
proof (intro conjI allI impI ballI)
  show none: "SquarePiece3D piece pos rot opacity = None \<longleftrightarrow>
      notches piece = None \<or> size_p piece = None \<or> size_p piece = Some 0"
    by (simp add: SquarePiece3D_None_iff number_truthy_iff)
  { fix g assume "SquarePiece3D piece pos rot opacity = Some g"
    with none show "notches piece \<noteq> None" "size_p piece \<noteq> None" by auto }
  show "SquarePieceViewer3D ps = NoSquarePieces \<longleftrightarrow> filter (\<lambda>p. notches p \<noteq> None) ps = []"
    by (rule viewer_message)
  { fix es assume c: "SquarePieceViewer3D ps = Canvas es"
    then show "es \<noteq> []" and m: "map elem_piece es = filter (\<lambda>p. notches p \<noteq> None) ps"
      using viewer_elements by blast+
    fix e assume "e \<in> set es"
    then have "elem_piece e \<in> set (map elem_piece es)" by simp
    with m have "notches (elem_piece e) \<noteq> None" by simp
    then show "(render_elem e = None) =
           (size_p (elem_piece e) = None \<or> size_p (elem_piece e) = Some 0)"
      by (auto simp: render_elem_def SquarePiece3D_None_iff number_truthy_iff) }
qed

theorem square_viewer_shows_notched_pieces_witness:
  "notches (examplePiece\<lparr>size_p := None\<rparr>) \<noteq> None \<and> size_p (examplePiece\<lparr>size_p := None\<rparr>) = None \<and>
   SquarePiece3D (examplePiece\<lparr>size_p := None\<rparr>) (0, 0, 0) (0, 0, 0) 1 = None \<and>
   (\<exists>g. SquarePiece3D examplePiece (0, 0, 0) (0, 0, 0) 1 = Some g) \<and>
   SquarePieceViewer3D [examplePiece\<lparr>notches := None\<rparr>] = NoSquarePieces \<and>
   (\<exists>es. SquarePieceViewer3D [examplePiece, examplePiece\<lparr>notches := None\<rparr>] = Canvas es \<and>
         map elem_piece es = [examplePiece])"
proof -
  have a: "size_p (examplePiece\<lparr>size_p := None\<rparr>) = None" by simp
  have b: "notches (examplePiece\<lparr>size_p := None\<rparr>) \<noteq> None" by (simp add: examplePiece_def)
  have c: "SquarePiece3D (examplePiece\<lparr>size_p := None\<rparr>) (0, 0, 0) (0, 0, 0) 1 = None"
    using square_viewer_shows_notched_pieces
      [of "examplePiece\<lparr>size_p := None\<rparr>" "(0, 0, 0)" "(0, 0, 0)" 1 "[]"] a
    by blast
  have "\<not> (notches examplePiece = None \<or> size_p examplePiece = None \<or> size_p examplePiece = Some 0)"
    by (simp add: examplePiece_def)
  with square_viewer_shows_notched_pieces [of examplePiece "(0, 0, 0)" "(0, 0, 0)" 1 "[]"]
  have d: "\<exists>g. SquarePiece3D examplePiece (0, 0, 0) (0, 0, 0) 1 = Some g"
    by (metis option.exhaust)
  have "filter (\<lambda>p. notches p \<noteq> None) [examplePiece\<lparr>notches := None\<rparr>] = []" by simp
  with square_viewer_shows_notched_pieces
      [of examplePiece "(0, 0, 0)" "(0, 0, 0)" 1 "[examplePiece\<lparr>notches := None\<rparr>]"]
  have e: "SquarePieceViewer3D [examplePiece\<lparr>notches := None\<rparr>] = NoSquarePieces"
    by blast
  have f: "filter (\<lambda>p. notches p \<noteq> None) [examplePiece, examplePiece\<lparr>notches := None\<rparr>] = [examplePiece]"
    by (simp add: examplePiece_def)
  note t = square_viewer_shows_notched_pieces
      [of examplePiece "(0, 0, 0)" "(0, 0, 0)" 1 "[examplePiece, examplePiece\<lparr>notches := None\<rparr>]"]
  from t f have "SquarePieceViewer3D [examplePiece, examplePiece\<lparr>notches := None\<rparr>] \<noteq> NoSquarePieces"
    by simp
  then obtain es where es: "SquarePieceViewer3D [examplePiece, examplePiece\<lparr>notches := None\<rparr>] = Canvas es"
    by (cases "SquarePieceViewer3D [examplePiece, examplePiece\<lparr>notches := None\<rparr>]") auto
  with t f have m: "map elem_piece es = [examplePiece]" by simp
  have g: "\<exists>es. SquarePieceViewer3D [examplePiece, examplePiece\<lparr>notches := None\<rparr>] = Canvas es \<and>
         map elem_piece es = [examplePiece]"
    by (rule exI [of _ es]) (simp add: es m)
  from a b c d e g show ?thesis by blast
qed

section \<open>Properties of the solver core\<close>

lemma interlocks_length: "interlocks p q \<Longrightarrow> length p = length q"
  by (induction p q rule: interlocks.induct) auto

lemma interlocks_nth: "interlocks p q \<Longrightarrow> i < length p \<Longrightarrow> p ! i \<noteq> q ! i"
proof (induction p q arbitrary: i rule: interlocks.induct)
  case (2 a as b bs)
  then show ?case by (cases i) auto
qed auto

lemma interlocks_intro:
  "length p = length q \<Longrightarrow> (\<forall>i < length p. p ! i \<noteq> q ! i) \<Longrightarrow> interlocks p q"
proof (induction p q rule: interlocks.induct)
  case (2 a as b bs)
  from "2.prems"(2) have "a \<noteq> b" by fastforce
  moreover from "2.prems"(2) have "\<forall>i < length as. as ! i \<noteq> bs ! i" by fastforce
  ultimately show ?case using 2 by auto
qed auto

lemma interlocks_iff:
  "interlocks p q \<longleftrightarrow> length p = length q \<and> (\<forall>i < length p. p ! i \<noteq> q ! i)"
  using interlocks_length interlocks_nth interlocks_intro by blast

text \<open>
  C4: for two pieces that both declare connectivity, the shared edge is valid exactly
  when at every position of the two edge patterns exactly one of the two entries is
  present and the other notched; when this interlocking condition fails, the connectivity
  term is the fixed penalty of the configuration, a real number and so finite.
\<close>

theorem connectivity_term_interlocking:
  assumes "connectivity a = Some ca" and "connectivity b = Some cb"
  shows "(connectivity_term penalty a aEdge b bEdge = 0 \<or>
          connectivity_term penalty a aEdge b bEdge = penalty) \<and>
         (interlocks (edge_of ca aEdge) (edge_of cb bEdge) \<longleftrightarrow>
            length (edge_of ca aEdge) = length (edge_of cb bEdge) \<and>
            (\<forall>i < length (edge_of ca aEdge).
               (edge_of ca aEdge ! i \<and> \<not> edge_of cb bEdge ! i) \<or>
               (\<not> edge_of ca aEdge ! i \<and> edge_of cb bEdge ! i))) \<and>
         (interlocks (edge_of ca aEdge) (edge_of cb bEdge) \<longrightarrow>
            connectivity_term penalty a aEdge b bEdge = 0) \<and>
         (\<not> interlocks (edge_of ca aEdge) (edge_of cb bEdge) \<longrightarrow>
            connectivity_term penalty a aEdge b bEdge = penalty)"
proof -
  have "interlocks (edge_of ca aEdge) (edge_of cb bEdge) \<longleftrightarrow>
            length (edge_of ca aEdge) = length (edge_of cb bEdge) \<and>
            (\<forall>i < length (edge_of ca aEdge).
               (edge_of ca aEdge ! i \<and> \<not> edge_of cb bEdge ! i) \<or>
               (\<not> edge_of ca aEdge ! i \<and> edge_of cb bEdge ! i))"
    unfolding interlocks_iff by blast
  moreover have "interlocks (edge_of ca aEdge) (edge_of cb bEdge) \<longrightarrow>
            connectivity_term penalty a aEdge b bEdge = 0"
    using assms by (simp add: connectivity_term_def)
  moreover have "\<not> interlocks (edge_of ca aEdge) (edge_of cb bEdge) \<longrightarrow>
            connectivity_term penalty a aEdge b bEdge = penalty"
    using assms by (simp add: connectivity_term_def)
  ultimately show ?thesis by blast
qed

theorem connectivity_term_interlocking_witness:
  "connectivity descriptorA = Some \<lparr>edge_top = [True, False, True], edge_right = [True, True, False],
                            edge_bottom = [True, False, False], edge_left = [False, True, True]\<rparr> \<and>
   connectivity descriptorB = Some \<lparr>edge_top = [True, True, True], edge_right = [True, False, False],
                            edge_bottom = [False, True, False], edge_left = [True, False, True]\<rparr> \<and>
   interlocks [True, False, True] [False, True, False] \<and>
   connectivity_term 1000 descriptorA SideTop descriptorB SideBottom = 0 \<and>
   \<not> interlocks [True, True, False] [True, False, True] \<and>
   connectivity_term 1000 descriptorA SideRight descriptorB SideLeft = 1000"
proof -
  have a: "connectivity descriptorA = Some \<lparr>edge_top = [True, False, True], edge_right = [True, True, False],
                            edge_bottom = [True, False, False], edge_left = [False, True, True]\<rparr>"
    by (simp add: descriptorA_def)
  have b: "connectivity descriptorB = Some \<lparr>edge_top = [True, True, True], edge_right = [True, False, False],
                            edge_bottom = [False, True, False], edge_left = [True, False, True]\<rparr>"
    by (simp add: descriptorB_def)
  have good: "interlocks [True, False, True] [False, True, False]" by simp
  have bad: "\<not> interlocks [True, True, False] [True, False, True]" by simp
  from connectivity_term_interlocking [OF a b, of 1000 SideTop SideBottom] good
  have c: "connectivity_term 1000 descriptorA SideTop descriptorB SideBottom = 0" by simp
  from connectivity_term_interlocking [OF a b, of 1000 SideRight SideLeft] bad
  have d: "connectivity_term 1000 descriptorA SideRight descriptorB SideLeft = 1000" by simp
  from a b good bad c d show ?thesis by blast
qed

text \<open>
  C5: a completed job reports the confidence max(0, 1 - cost / worst), where \<open>worst\<close>
  is the cost of the worst feasible arrangement; the confidence does not increase when
  the final cost increases, it is 1 at cost 0, and it never leaves the interval from 0 to 1.
\<close>

theorem confidence_from_cost:
  assumes "0 < worst" and "0 \<le> cost final" and "cost final \<le> c'"
  shows "status (complete_job job final worst) = Completed \<and>
         confidence (complete_job job final worst) = Some (max 0 (1 - cost final / worst)) \<and>
         confidence_of (cost final) worst = max 0 (1 - cost final / worst) \<and>
         confidence_of c' worst \<le> confidence_of (cost final) worst \<and>
         confidence_of 0 worst = 1 \<and>
         0 \<le> confidence_of (cost final) worst \<and> confidence_of (cost final) worst \<le> 1"
proof -
  from assms have a: "0 \<le> cost final / worst" and b: "cost final / worst \<le> c' / worst"
    by (simp_all add: divide_right_mono)
  from a have eq: "confidence_of (cost final) worst = max 0 (1 - cost final / worst)"
    by (simp add: confidence_of_def)
  then have "confidence (complete_job job final worst) = Some (max 0 (1 - cost final / worst))"
    by (simp add: complete_job_def)
  moreover have "status (complete_job job final worst) = Completed" by (simp add: complete_job_def)
  moreover from b have "confidence_of c' worst \<le> confidence_of (cost final) worst"
    by (auto simp: confidence_of_def min_def max_def)
  moreover have "confidence_of 0 worst = 1" by (simp add: confidence_of_def)
  moreover have "0 \<le> confidence_of (cost final) worst \<and> confidence_of (cost final) worst \<le> 1"
    by (simp add: confidence_of_def)
  ultimately show ?thesis using eq by blast
qed

theorem confidence_from_cost_witness:
  "(0::real) < 10 \<and> 0 \<le> cost exampleFinal \<and> cost exampleFinal \<le> 5 \<and>
   confidence (complete_job exampleJob exampleFinal 10) = Some (4 / 5) \<and>
   confidence_of 5 10 \<le> confidence_of 2 10 \<and> confidence_of 0 10 = 1"
proof -
  have h1: "(0::real) < 10" by simp
  have h2: "0 \<le> cost exampleFinal" by (simp add: exampleFinal_def)
  have h3: "cost exampleFinal \<le> 5" by (simp add: exampleFinal_def)
  have c: "cost exampleFinal = 2" by (simp add: exampleFinal_def)
  from confidence_from_cost [OF h1 h2 h3, of exampleJob]
  have "confidence (complete_job exampleJob exampleFinal 10) = Some (4 / 5) \<and>
        confidence_of 5 10 \<le> confidence_of 2 10 \<and> confidence_of 0 10 = 1"
    by (simp add: c)
  with h1 h2 h3 show ?thesis by blast
qed

lemma parse_algorithm_Some:
  "(\<exists>alg. parse_algorithm a = Some alg) \<longleftrightarrow>
     a \<in> {''genetic'', ''simulated_annealing'', ''reinforcement_learning''}"
  by (simp add: parse_algorithm_def)

lemma start_not_configuration: "fst (start registry now pid alg max_it) \<noteq> Inl InvalidConfiguration"
  by (simp add: start_def Let_def)

lemma solve_accepts_iff:
  "(\<exists>alg. parse_algorithm (call_algorithm c) = Some alg) \<and>
   in_range 100 10000 (Some (call_max_iterations c)) \<and> tunables_valid (call_tunables c)
   \<longleftrightarrow> solve registry now c \<noteq> (Inl InvalidConfiguration, registry)"
proof (cases "parse_algorithm (call_algorithm c)")
  case None
  then show ?thesis by (simp add: solve_def)
next
  case (Some alg)
  have "start registry now (call_puzzle_id c) alg (call_max_iterations c)
          \<noteq> (Inl InvalidConfiguration, registry)"
    using start_not_configuration [of registry now "call_puzzle_id c" alg "call_max_iterations c"]
    by auto
  with Some show ?thesis by (simp add: solve_def)
qed

text \<open>
  C3: a solve request is accepted only when its algorithm is one of genetic,
  simulated_annealing and reinforcement_learning, its max_iterations lies in 100 to 10000
  and every tunable that is given lies in its documented range; a request that fails one
  of these is answered with InvalidConfiguration and the registry is left as it was, so
  no job is created.
\<close>

theorem solve_validates_request:
  "(\<forall>job registry'. solve registry now c = (Inr job, registry') \<longrightarrow>
      call_algorithm c \<in> {''genetic'', ''simulated_annealing'', ''reinforcement_learning''} \<and>
      100 \<le> call_max_iterations c \<and> call_max_iterations c \<le> 10000 \<and>
      (\<forall>v. population_size (call_tunables c) = Some v \<longrightarrow> 20 \<le> v \<and> v \<le> 100) \<and>
      (\<forall>v. mutation_rate (call_tunables c) = Some v \<longrightarrow> 0.01 \<le> v \<and> v \<le> 0.5) \<and>
      (\<forall>v. initial_temperature (call_tunables c) = Some v \<longrightarrow> 50 \<le> v \<and> v \<le> 500) \<and>
      (\<forall>v. cooling_rate (call_tunables c) = Some v \<longrightarrow> 0.9 \<le> v \<and> v \<le> 0.999)) \<and>
   (call_algorithm c \<notin> {''genetic'', ''simulated_annealing'', ''reinforcement_learning''} \<or>
    call_max_iterations c < 100 \<or> 10000 < call_max_iterations c \<or>
    (\<exists>v. population_size (call_tunables c) = Some v \<and> (v < 20 \<or> 100 < v)) \<or>
    (\<exists>v. mutation_rate (call_tunables c) = Some v \<and> (v < 0.01 \<or> 0.5 < v)) \<or>
    (\<exists>v. initial_temperature (call_tunables c) = Some v \<and> (v < 50 \<or> 500 < v)) \<or>
    (\<exists>v. cooling_rate (call_tunables c) = Some v \<and> (v < 0.9 \<or> 0.999 < v))
    \<longrightarrow> solve registry now c = (Inl InvalidConfiguration, registry))"
proof (intro conjI allI impI)
  fix job registry'
  assume acc: "solve registry now c = (Inr job, registry')"
  then have "solve registry now c \<noteq> (Inl InvalidConfiguration, registry)" by simp
  then have ok: "(\<exists>alg. parse_algorithm (call_algorithm c) = Some alg)"
    "in_range 100 10000 (Some (call_max_iterations c))" "tunables_valid (call_tunables c)"
    using solve_accepts_iff [of c registry now] by blast+
  from ok(1) show "call_algorithm c \<in> {''genetic'', ''simulated_annealing'', ''reinforcement_learning''}"
    by (simp only: parse_algorithm_Some)
  from ok(2) show "100 \<le> call_max_iterations c" "call_max_iterations c \<le> 10000"
    by (simp_all add: in_range_def)
  { fix v assume "population_size (call_tunables c) = Some v"
    with ok(3) show "20 \<le> v" "v \<le> 100" by (simp_all add: tunables_valid_def in_range_def) }
  { fix v assume "mutation_rate (call_tunables c) = Some v"
    with ok(3) show "0.01 \<le> v" "v \<le> 0.5" by (simp_all add: tunables_valid_def in_range_def) }
  { fix v assume "initial_temperature (call_tunables c) = Some v"
    with ok(3) show "50 \<le> v" "v \<le> 500" by (simp_all add: tunables_valid_def in_range_def) }
  { fix v assume "cooling_rate (call_tunables c) = Some v"
    with ok(3) show "0.9 \<le> v" "v \<le> 0.999" by (simp_all add: tunables_valid_def in_range_def) }
next
  assume bad: "call_algorithm c \<notin> {''genetic'', ''simulated_annealing'', ''reinforcement_learning''} \<or>
    call_max_iterations c < 100 \<or> 10000 < call_max_iterations c \<or>
    (\<exists>v. population_size (call_tunables c) = Some v \<and> (v < 20 \<or> 100 < v)) \<or>
    (\<exists>v. mutation_rate (call_tunables c) = Some v \<and> (v < 0.01 \<or> 0.5 < v)) \<or>
    (\<exists>v. initial_temperature (call_tunables c) = Some v \<and> (v < 50 \<or> 500 < v)) \<or>
    (\<exists>v. cooling_rate (call_tunables c) = Some v \<and> (v < 0.9 \<or> 0.999 < v))"
  have "\<not> ((\<exists>alg. parse_algorithm (call_algorithm c) = Some alg) \<and>
   in_range 100 10000 (Some (call_max_iterations c)) \<and> tunables_valid (call_tunables c))"
    using bad unfolding parse_algorithm_Some
    by (auto simp: in_range_def tunables_valid_def)
  then show "solve registry now c = (Inl InvalidConfiguration, registry)"
    using solve_accepts_iff [of c registry now] by blast
qed

theorem solve_validates_request_witness:
  "call_max_iterations (exampleCall\<lparr>call_max_iterations := 50\<rparr>) < 100 \<and>
   solve Map.empty 0 (exampleCall\<lparr>call_max_iterations := 50\<rparr>) = (Inl InvalidConfiguration, Map.empty) \<and>
   (\<exists>job registry'. solve Map.empty 0 exampleCall = (Inr job, registry') \<and> status job = Running) \<and>
   100 \<le> call_max_iterations exampleCall \<and> call_max_iterations exampleCall \<le> 10000"
proof -
  have low: "call_max_iterations (exampleCall\<lparr>call_max_iterations := 50\<rparr>) < 100" by simp
  with solve_validates_request [of Map.empty 0 "exampleCall\<lparr>call_max_iterations := 50\<rparr>"]
  have rej: "solve Map.empty 0 (exampleCall\<lparr>call_max_iterations := 50\<rparr>) = (Inl InvalidConfiguration, Map.empty)"
    by blast
  have acc: "\<exists>job registry'. solve Map.empty 0 exampleCall = (Inr job, registry') \<and> status job = Running"
    by (simp add: solve_def exampleCall_def parse_algorithm_def in_range_def tunables_valid_def
        start_def Let_def)
  then obtain job registry' where "solve Map.empty 0 exampleCall = (Inr job, registry')" by blast
  with solve_validates_request [of Map.empty 0 exampleCall]
  have "100 \<le> call_max_iterations exampleCall \<and> call_max_iterations exampleCall \<le> 10000"
    by blast
  with low rej acc show ?thesis by blast
qed

text \<open>
  The page does not check the range itself: the change handler keeps any integer other
  than 0, and the request carries it to \<open>solve\<close>, which rejects it.
\<close>

lemma page_request_outside_range:
  "max_iterations (solverRequest pz genetic (setMaxIterations_onChange (Some 50))) = 50 \<and>
   solve registry now (solve_call_of (solverRequest pz genetic (setMaxIterations_onChange (Some 50))))
     = (Inl InvalidConfiguration, registry)"
  by (simp add: solverRequest_def setMaxIterations_onChange_def solve_call_of_def solve_def
      parse_algorithm_def in_range_def)

section \<open>Progress of a running job\<close>

lemma run_ok_bounds:
  assumes "run_ok r"
  shows "0 \<le> job_progress_fraction (run_job r) \<and> job_progress_fraction (run_job r) \<le> 1"
proof -
  from assms have m: "0 < real_of_int (job_max_iterations (run_job r))"
    and le: "real (iteration r) \<le> real_of_int (job_max_iterations (run_job r))"
    and eq: "job_progress_fraction (run_job r) =
        real (iteration r) / real_of_int (job_max_iterations (run_job r))"
    by (simp_all add: run_ok_def)
  from m le show ?thesis unfolding eq by simp
qed

lemma controller_turn_ok:
  assumes "run_ok r"
  shows "run_ok (controller_turn worst t r)"
proof (cases t)
  case (Stepped a converged)
  from assms show ?thesis
    unfolding Stepped
    by (auto simp: controller_turn_def run_ok_def Let_def complete_job_def)
next
  case StepError
  with assms show ?thesis by (auto simp: controller_turn_def run_ok_def Let_def)
next
  case CancelCall
  with assms show ?thesis by (auto simp: controller_turn_def run_ok_def Let_def)
qed

lemma controller_turn_monotone:
  assumes "run_ok r"
  shows "job_progress_fraction (run_job r) \<le> job_progress_fraction (run_job (controller_turn worst t r))"
proof (cases t)
  case (Stepped a converged)
  from assms have m: "0 < real_of_int (job_max_iterations (run_job r))"
    and eq: "job_progress_fraction (run_job r) =
        real (iteration r) / real_of_int (job_max_iterations (run_job r))"
    by (simp_all add: run_ok_def)
  have "real (iteration r) / real_of_int (job_max_iterations (run_job r))
          \<le> real (iteration r + 1) / real_of_int (job_max_iterations (run_job r))"
    using m by (simp add: divide_right_mono)
  then show ?thesis
    unfolding Stepped
    using eq by (auto simp: controller_turn_def Let_def complete_job_def)
next
  case StepError
  then show ?thesis by (auto simp: controller_turn_def Let_def)
next
  case CancelCall
  then show ?thesis by (auto simp: controller_turn_def Let_def)
qed

lemma controller_turn_running:
  "status (run_job (controller_turn worst t r)) = Running \<Longrightarrow> status (run_job r) = Running"
  by (auto simp: controller_turn_def Let_def split: if_splits)

lemma run_turns_ok: "run_ok r \<Longrightarrow> run_ok (run_turns worst ts r)"
  by (induction ts arbitrary: r) (simp_all add: controller_turn_ok)

lemma run_turns_monotone:
  "run_ok r \<Longrightarrow>
     job_progress_fraction (run_job r) \<le> job_progress_fraction (run_job (run_turns worst ts r))"
proof (induction ts arbitrary: r)
  case Nil
  show ?case by simp
next
  case (Cons t ts)
  have "job_progress_fraction (run_job r)
          \<le> job_progress_fraction (run_job (controller_turn worst t r))"
    using Cons.prems by (rule controller_turn_monotone)
  also have "\<dots> \<le> job_progress_fraction (run_job (run_turns worst ts (controller_turn worst t r)))"
    using Cons.prems by (intro Cons.IH controller_turn_ok)
  finally show ?case by simp
qed

lemma run_turns_running:
  "status (run_job (run_turns worst ts r)) = Running \<Longrightarrow> status (run_job r) = Running"
  by (induction ts arbitrary: r) (auto dest: controller_turn_running)

lemma solve_begins_ok:
  assumes "solve registry now c = (Inr job, registry')"
  shows "run_ok (begin_run job) \<and> status job = Running \<and> job_progress_fraction job = 0"
proof -
  from assms obtain alg where
    acc: "start registry now (call_puzzle_id c) alg (call_max_iterations c) = (Inr job, registry')"
    and rng: "in_range 100 10000 (Some (call_max_iterations c))"
    by (auto simp: solve_def split: option.splits if_splits)
  from acc have "job = \<lparr>job_algorithm = alg, job_max_iterations = call_max_iterations c,
       started_at = now, status = Running, job_progress_fraction = 0,
       best_arrangement = None, confidence = None\<rparr>"
    by (auto simp: start_def Let_def split: if_splits)
  with rng show ?thesis by (simp add: run_ok_def begin_run_def in_range_def)
qed

lemma run_turns_append:
  "run_turns worst (ts @ ts') r = run_turns worst ts' (run_turns worst ts r)"
  by (induction ts arbitrary: r) simp_all

text \<open>
  C6: for a job that \<open>solve\<close> accepted, take the snapshots two successive polls return,
  one after some turns of the controller and one after any further turns. If the job is
  still Running at the later poll, it was Running at the earlier one, its
  \<open>progress_fraction\<close> has not decreased from the earlier poll to the later one, and
  both values lie within 0.0 and 1.0.
\<close>

theorem job_progress_monotone:
  assumes "solve registry now c = (Inr job, registry')"
    and "status (run_job (run_turns worst (ts @ ts') (begin_run job))) = Running"
  shows "status (run_job (run_turns worst ts (begin_run job))) = Running \<and>
         job_progress_fraction (run_job (run_turns worst ts (begin_run job)))
           \<le> job_progress_fraction (run_job (run_turns worst (ts @ ts') (begin_run job))) \<and>
         0 \<le> job_progress_fraction (run_job (run_turns worst ts (begin_run job))) \<and>
         job_progress_fraction (run_job (run_turns worst (ts @ ts') (begin_run job))) \<le> 1"
proof -
  define r1 where "r1 = run_turns worst ts (begin_run job)"
  define r2 where "r2 = run_turns worst (ts @ ts') (begin_run job)"
  have r2: "r2 = run_turns worst ts' r1"
    by (simp add: r1_def r2_def run_turns_append)
  from assms(1) have "run_ok (begin_run job)"
    using solve_begins_ok by blast
  then have ok1: "run_ok r1" unfolding r1_def by (rule run_turns_ok)
  then have ok2: "run_ok r2" unfolding r2 by (rule run_turns_ok)
  from assms(2) have "status (run_job (run_turns worst ts' r1)) = Running"
    by (simp add: r1_def run_turns_append)
  then have a: "status (run_job r1) = Running" by (rule run_turns_running)
  from ok1 have b: "job_progress_fraction (run_job r1) \<le> job_progress_fraction (run_job r2)"
    unfolding r2 by (rule run_turns_monotone)
  from ok1 have c: "0 \<le> job_progress_fraction (run_job r1)"
    using run_ok_bounds by blast
  from ok2 have d: "job_progress_fraction (run_job r2) \<le> 1"
    using run_ok_bounds by blast
  from a b c d show ?thesis unfolding r1_def r2_def by blast
qed

theorem job_progress_monotone_witness:
  "(\<exists>job registry'. solve Map.empty 0 exampleCall = (Inr job, registry') \<and>
      status (run_job (run_turns 10 ([Stepped exampleFinal False] @ [Stepped exampleFinal False])
                (begin_run job))) = Running \<and>
      job_progress_fraction (run_job (run_turns 10 [Stepped exampleFinal False] (begin_run job)))
        = 1 / 1000 \<and>
      job_progress_fraction (run_job (run_turns 10
           ([Stepped exampleFinal False] @ [Stepped exampleFinal False]) (begin_run job)))
        = 2 / 1000 \<and>
      job_progress_fraction (run_job (run_turns 10 [Stepped exampleFinal False] (begin_run job)))
        \<le> job_progress_fraction (run_job (run_turns 10
           ([Stepped exampleFinal False] @ [Stepped exampleFinal False]) (begin_run job))))"
proof -
  define job where "job =
     \<lparr>job_algorithm = genetic, job_max_iterations = 1000, started_at = 0, status = Running,
      job_progress_fraction = 0, best_arrangement = None, confidence = None\<rparr>"
  have h1: "solve Map.empty 0 exampleCall = (Inr job, [''p1'' \<mapsto> job])"
    by (simp add: solve_def exampleCall_def parse_algorithm_def in_range_def tunables_valid_def
        start_def Let_def job_def)
  have one: "run_turns 10 [Stepped exampleFinal False] (begin_run job) =
      \<lparr>run_job = job\<lparr>job_progress_fraction := 1 / 1000, best_arrangement := Some exampleFinal\<rparr>,
       iteration = 1\<rparr>"
    by (simp add: controller_turn_def begin_run_def Let_def better_def job_def)
  have two: "run_turns 10 ([Stepped exampleFinal False] @ [Stepped exampleFinal False]) (begin_run job) =
      \<lparr>run_job = job\<lparr>job_progress_fraction := 2 / 1000, best_arrangement := Some exampleFinal\<rparr>,
       iteration = 2\<rparr>"
    by (simp add: controller_turn_def begin_run_def Let_def better_def job_def)
  have h2: "status (run_job (run_turns 10 ([Stepped exampleFinal False] @ [Stepped exampleFinal False])
                (begin_run job))) = Running"
    unfolding two by (simp add: job_def)
  from job_progress_monotone [OF h1 h2]
  have le: "job_progress_fraction (run_job (run_turns 10 [Stepped exampleFinal False] (begin_run job)))
        \<le> job_progress_fraction (run_job (run_turns 10
           ([Stepped exampleFinal False] @ [Stepped exampleFinal False]) (begin_run job)))"
    by blast
  have p1: "job_progress_fraction (run_job (run_turns 10 [Stepped exampleFinal False] (begin_run job)))
        = 1 / 1000"
    unfolding one by simp
  have p2: "job_progress_fraction (run_job (run_turns 10
           ([Stepped exampleFinal False] @ [Stepped exampleFinal False]) (begin_run job)))
        = 2 / 1000"
    unfolding two by simp
  from h1 h2 p1 p2 le show ?thesis by blast
qed

end
